theory Spec2Isabelle
  imports
    Complex_Main
    "HOL-Library.Sublist"
    "HOL-Library.Char_ord"
    "HOL-Library.List_Lexorder"
    "HOL-Library.Multiset"
begin

section \<open>The feature-flag service of \<^verbatim>\<open>app.py\<close>\<close>

text \<open>
  The program is a Flask application with four handlers over one PostgreSQL table,
  a credential resolver and a schema bootstrap. The handlers are embedded as
  functions of the parsed request body and of a \<^emph>\<open>world\<close> (the committed table and
  a trace of what the program did to the outside); every \<^verbatim>\<open>raise\<close> is a value
  \<open>Inl e\<close>. What the program only calls (the process environment, boto3, psycopg2
  and the database server) is the record \<open>environment\<close> and the function
  \<open>run_stmt\<close>, which gives the statements of the program their meaning on the
  table that \<^verbatim>\<open>init_db\<close> declares.
\<close>

subsection \<open>Python values and exceptions\<close>

text \<open>
  What \<^verbatim>\<open>request.get_json()\<close> returns: \<open>JNull\<close> is Python's \<^verbatim>\<open>None\<close>, \<open>JObj\<close> a
  \<^verbatim>\<open>dict\<close> given by its items (a key is looked up with \<open>map_of\<close>), \<open>JArr\<close> a
  \<^verbatim>\<open>list\<close>. A \<^verbatim>\<open>float\<close> is given by its value; the program only asks whether it is
  zero.
\<close>

datatype json =
    JNull
  | JBool bool
  | JInt int
  | JFloat rat
  | JStr string
  | JArr "json list"
  | JObj "(string \<times> json) list"

text \<open>
  The exceptions that can arise. \<open>RuntimeError_boto3\<close> and
  \<open>RuntimeError_password\<close> are the two \<^verbatim>\<open>RuntimeError\<close>s the program raises itself.
  \<open>UniqueViolation\<close> and \<open>NotNullViolation\<close> are the two subclasses of
  \<^verbatim>\<open>psycopg2.IntegrityError\<close> that the constraints of the table can raise;
  \<open>StringDataRightTruncation\<close> (a \<^verbatim>\<open>DataError\<close>), \<open>UndefinedTable\<close> (a
  \<^verbatim>\<open>ProgrammingError\<close>) and \<open>CoercionError\<close> (the \<^verbatim>\<open>DataError\<close> or
  \<^verbatim>\<open>ProgrammingError\<close> of a parameter that cannot be adapted or converted to the
  type of its column) are the other errors of a statement. \<open>ClientError\<close> is what
  the secret store answers when a lookup fails.
\<close>

datatype exn =
    RuntimeError_boto3
  | RuntimeError_password
  | TypeError
  | KeyError
  | AttributeError
  | OperationalError
  | UniqueViolation
  | NotNullViolation
  | StringDataRightTruncation
  | UndefinedTable
  | CoercionError
  | ClientError string

fun is_IntegrityError :: "exn \<Rightarrow> bool" where
  "is_IntegrityError UniqueViolation = True"
| "is_IntegrityError NotNullViolation = True"
| "is_IntegrityError _ = False"

fun is_OperationalError :: "exn \<Rightarrow> bool" where
  "is_OperationalError OperationalError = True"
| "is_OperationalError _ = False"

text \<open>\<^verbatim>\<open>bool(x)\<close>: what \<^verbatim>\<open>not data\<close> tests.\<close>

fun truthy :: "json \<Rightarrow> bool" where
  "truthy JNull = False"
| "truthy (JBool b) = b"
| "truthy (JInt i) = (i \<noteq> 0)"
| "truthy (JFloat r) = (r \<noteq> 0)"
| "truthy (JStr s) = (s \<noteq> [])"
| "truthy (JArr xs) = (xs \<noteq> [])"
| "truthy (JObj kvs) = (kvs \<noteq> [])"

text \<open>
  \<^verbatim>\<open>key in data\<close>: a key of a dict, an element of a list, a substring of a string;
  on \<^verbatim>\<open>None\<close>, a bool or a number Python raises \<^verbatim>\<open>TypeError\<close>.
\<close>

fun contains :: "string \<Rightarrow> json \<Rightarrow> exn + bool" where
  "contains key (JObj kvs) = Inr (key \<in> set (map fst kvs))"
| "contains key (JArr xs) = Inr (JStr key \<in> set xs)"
| "contains key (JStr s) = Inr (sublist key s)"
| "contains key _ = Inl TypeError"

text \<open>\<^verbatim>\<open>data[key]\<close> with a string key: only a dict can be indexed so.\<close>

fun getitem :: "json \<Rightarrow> string \<Rightarrow> exn + json" where
  "getitem (JObj kvs) key = (case map_of kvs key of None \<Rightarrow> Inl KeyError | Some v \<Rightarrow> Inr v)"
| "getitem _ key = Inl TypeError"

text \<open>\<^verbatim>\<open>data.get(key, default)\<close>: a method of dicts only.\<close>

fun dict_get :: "json \<Rightarrow> string \<Rightarrow> json \<Rightarrow> exn + json" where
  "dict_get (JObj kvs) key dflt = Inr (case map_of kvs key of None \<Rightarrow> dflt | Some v \<Rightarrow> v)"
| "dict_get _ key dflt = Inl AttributeError"

text \<open>\<^verbatim>\<open>isinstance(v, bool)\<close>.\<close>

fun isinstance_bool :: "json \<Rightarrow> bool" where
  "isinstance_bool (JBool b) = True"
| "isinstance_bool _ = False"

subsection \<open>The table and the statements\<close>

text \<open>
  A row of \<^verbatim>\<open>flags\<close>. The columns \<^verbatim>\<open>id\<close> and \<^verbatim>\<open>created_at\<close> are filled by the server
  (a sequence and its clock) and no statement of the program reads them, so a row is
  the two columns the statements name.
\<close>

record flag =
  flag_name :: string
  flag_is_enabled :: bool

text \<open>The five statements the program sends, with their parameters.\<close>

datatype stmt =
    Create_table_flags
  | Insert_flag json json
  | Select_flags
  | Select_flag string
  | Update_flag bool string

record cursor =
  rowcount :: int
  fetched :: "flag list"

record conninfo =
  ci_host :: "string option"
  ci_port :: int
  ci_database :: "string option"
  ci_user :: "string option"
  ci_password :: string

text \<open>
  What the program reads and calls but does not define:
  \<^item> \<open>environ\<close>: the process environment behind \<^verbatim>\<open>os.getenv\<close>;
  \<^item> \<open>DB_PORT\<close>: the module constant \<^verbatim>\<open>int(os.getenv("DB_PORT", "5432"))\<close>;
  \<^item> \<open>boto3\<close>: \<open>None\<close> when the import failed, otherwise the SSM lookup
    \<^verbatim>\<open>get_parameter(Name, WithDecryption=True)\<close> of a region and a name;
  \<^item> \<open>psycopg2_connect\<close>: whether the server accepts the connection (otherwise
    \<^verbatim>\<open>psycopg2.connect\<close> raises \<^verbatim>\<open>OperationalError\<close>);
  \<^item> \<open>varchar_of\<close>, \<open>boolean_of\<close>: what driver and server make of a parameter whose
    Python type is not the one of its column (a number as name, a string as
    is_enabled, ...): the value stored, or \<open>None\<close> when the statement is rejected.
\<close>

record environment =
  environ :: "string \<Rightarrow> string option"
  DB_PORT :: int
  boto3 :: "(string \<Rightarrow> string \<Rightarrow> exn + string) option"
  psycopg2_connect :: "conninfo \<Rightarrow> bool"
  varchar_of :: "json \<Rightarrow> string option"
  boolean_of :: "json \<Rightarrow> bool option"

definition getenv :: "environment \<Rightarrow> string \<Rightarrow> string option" where
  "getenv env key = environ env key"

definition DB_HOST :: "environment \<Rightarrow> string option" where
  "DB_HOST env = getenv env ''DB_HOST''"

definition DB_NAME :: "environment \<Rightarrow> string option" where
  "DB_NAME env = getenv env ''DB_NAME''"

definition DB_USER :: "environment \<Rightarrow> string option" where
  "DB_USER env = getenv env ''DB_USER''"

text \<open>
  The value of a \<^verbatim>\<open>VARCHAR(100) NOT NULL\<close> column from a parameter: \<open>None\<close> is SQL
  \<^verbatim>\<open>NULL\<close>. A string longer than the column is an error unless all the excess
  characters are spaces, in which case it is cut to the column's length.
\<close>

definition varchar100 :: "string \<Rightarrow> exn + string option" where
  "varchar100 s =
     (if length s \<le> 100 then Inr (Some s)
      else if list_all (\<lambda>c. c = CHR '' '') (drop 100 s) then Inr (Some (take 100 s))
      else Inl StringDataRightTruncation)"

fun coerce_varchar100 :: "environment \<Rightarrow> json \<Rightarrow> exn + string option" where
  "coerce_varchar100 env JNull = Inr None"
| "coerce_varchar100 env (JStr s) = varchar100 s"
| "coerce_varchar100 env v =
     (case varchar_of env v of None \<Rightarrow> Inl CoercionError | Some s \<Rightarrow> varchar100 s)"

fun coerce_boolean :: "environment \<Rightarrow> json \<Rightarrow> exn + bool option" where
  "coerce_boolean env JNull = Inr None"
| "coerce_boolean env (JBool b) = Inr (Some b)"
| "coerce_boolean env v =
     (case boolean_of env v of None \<Rightarrow> Inl CoercionError | Some b \<Rightarrow> Inr (Some b))"

text \<open>
  \<^verbatim>\<open>INSERT INTO flags (name, is_enabled) VALUES (%s, %s)\<close> on the rows of the table:
  the parameters are converted to the column types, then \<^verbatim>\<open>NOT NULL\<close> is checked on
  both columns, then \<^verbatim>\<open>UNIQUE\<close> on name.
\<close>

definition insert_flag :: "environment \<Rightarrow> json \<Rightarrow> json \<Rightarrow> flag list \<Rightarrow> exn + flag list" where
  "insert_flag env name is_enabled t =
     (case coerce_varchar100 env name of
        Inl e \<Rightarrow> Inl e
      | Inr n \<Rightarrow>
         (case coerce_boolean env is_enabled of
            Inl e \<Rightarrow> Inl e
          | Inr b \<Rightarrow>
             (case n of
                None \<Rightarrow> Inl NotNullViolation
              | Some n' \<Rightarrow>
                 (case b of
                    None \<Rightarrow> Inl NotNullViolation
                  | Some b' \<Rightarrow>
                      if n' \<in> set (map flag_name t) then Inl UniqueViolation
                      else Inr (t @ [\<lparr>flag_name = n', flag_is_enabled = b'\<rparr>])))))"

text \<open>
  A statement on the table (\<open>None\<close>: the relation \<^verbatim>\<open>flags\<close> does not exist yet).
  \<^verbatim>\<open>ORDER BY name\<close> sorts by the lexicographic order of the character codes.
\<close>

fun run_stmt :: "environment \<Rightarrow> stmt \<Rightarrow> flag list option \<Rightarrow> exn + cursor \<times> flag list option" where
  "run_stmt env Create_table_flags None = Inr (\<lparr>rowcount = - 1, fetched = []\<rparr>, Some [])"
| "run_stmt env Create_table_flags (Some t) = Inr (\<lparr>rowcount = - 1, fetched = []\<rparr>, Some t)"
| "run_stmt env q None = Inl UndefinedTable"
| "run_stmt env (Insert_flag name is_enabled) (Some t) =
     (case insert_flag env name is_enabled t of
        Inl e \<Rightarrow> Inl e
      | Inr t' \<Rightarrow> Inr (\<lparr>rowcount = 1, fetched = []\<rparr>, Some t'))"
| "run_stmt env Select_flags (Some t) =
     Inr (\<lparr>rowcount = int (length t), fetched = sort_key flag_name t\<rparr>, Some t)"
| "run_stmt env (Select_flag name) (Some t) =
     (let r = filter (\<lambda>f. flag_name f = name) t
      in Inr (\<lparr>rowcount = int (length r), fetched = r\<rparr>, Some t))"
| "run_stmt env (Update_flag is_enabled name) (Some t) =
     Inr (\<lparr>rowcount = int (length (filter (\<lambda>f. flag_name f = name) t)), fetched = []\<rparr>,
          Some (map (\<lambda>f. if flag_name f = name then f\<lparr>flag_is_enabled := is_enabled\<rparr> else f) t))"

subsection \<open>The world: the committed table and what the program did\<close>

datatype log_line =
    Log_trying
  | Log_initialised
  | Log_connection_error exn
  | Log_unexpected_error exn

datatype event =
    Connect conninfo
  | Execute stmt
  | Commit
  | Close
  | Print log_line

record world =
  flags_table :: "flag list option"
  trace :: "event list"

text \<open>An open connection holds the table as its transaction sees it.\<close>

record connection =
  work :: "flag list option"

definition emit :: "event \<Rightarrow> world \<Rightarrow> world" where
  "emit ev w = w\<lparr>trace := trace w @ [ev]\<rparr>"

definition execute ::
  "environment \<Rightarrow> stmt \<Rightarrow> connection \<Rightarrow> world \<Rightarrow> (exn + cursor) \<times> connection \<times> world" where
  "execute env q conn w =
     (case run_stmt env q (work conn) of
        Inl e \<Rightarrow> (Inl e, conn, emit (Execute q) w)
      | Inr (cur, t) \<Rightarrow> (Inr cur, conn\<lparr>work := t\<rparr>, emit (Execute q) w))"

definition commit :: "connection \<Rightarrow> world \<Rightarrow> world" where
  "commit conn w = emit Commit (w\<lparr>flags_table := work conn\<rparr>)"

text \<open>
  The \<^verbatim>\<open>finally\<close> block of the handlers: \<^verbatim>\<open>conn\<close> is closed when it was bound;
  what was not committed is lost with it.
\<close>

definition finally_close :: "connection option \<Rightarrow> world \<Rightarrow> world" where
  "finally_close c w = (case c of None \<Rightarrow> w | Some conn \<Rightarrow> emit Close w)"

subsection \<open>Credentials and the connection\<close>

text \<open>The truth value of a \<^verbatim>\<open>str\<close> or \<^verbatim>\<open>None\<close>: \<^verbatim>\<open>None\<close> and \<^verbatim>\<open>""\<close> are false.\<close>

fun str_truthy :: "string option \<Rightarrow> bool" where
  "str_truthy None = False"
| "str_truthy (Some s) = (s \<noteq> [])"

text \<open>\<^verbatim>\<open>a or b\<close> on such values, and with a string literal as the last choice.\<close>

definition py_or :: "string option \<Rightarrow> string option \<Rightarrow> string option" where
  "py_or a b = (if str_truthy a then a else b)"

definition or_else :: "string option \<Rightarrow> string \<Rightarrow> string" where
  "or_else a d = (case a of None \<Rightarrow> d | Some s \<Rightarrow> if s \<noteq> [] then s else d)"

definition get_ssm_parameter :: "environment \<Rightarrow> string \<Rightarrow> string \<Rightarrow> exn + string" where
  "get_ssm_parameter env name region_name =
     (case boto3 env of
        None \<Rightarrow> Inl RuntimeError_boto3
      | Some get_parameter \<Rightarrow> get_parameter region_name name)"

text \<open>
  \<^verbatim>\<open>os.getenv("AWS_REGION") or os.getenv("AWS_DEFAULT_REGION") or "sa-east-1"\<close>
\<close>

definition region_of :: "environment \<Rightarrow> string" where
  "region_of env =
     or_else (py_or (getenv env ''AWS_REGION'') (getenv env ''AWS_DEFAULT_REGION''))
       ''sa-east-1''"

definition resolve_db_password :: "environment \<Rightarrow> exn + string option" where
  "resolve_db_password env =
     (let password = getenv env ''DB_PASSWORD'' in
      if str_truthy password then Inr password
      else
        (case getenv env ''DB_PASSWORD_SSM_PARAM'' of
           None \<Rightarrow> Inr None
         | Some ssm_param \<Rightarrow>
             if ssm_param = [] then Inr None
             else map_sum id Some (get_ssm_parameter env ssm_param (region_of env))))"

text \<open>
  \<^verbatim>\<open>get_db_connection\<close>: a password that is \<^verbatim>\<open>None\<close> or empty raises before
  \<^verbatim>\<open>psycopg2.connect\<close> is called.
\<close>

definition get_db_connection :: "environment \<Rightarrow> world \<Rightarrow> (exn + connection) \<times> world" where
  "get_db_connection env w =
     (case resolve_db_password env of
        Inl e \<Rightarrow> (Inl e, w)
      | Inr db_password \<Rightarrow>
         (case db_password of
            None \<Rightarrow> (Inl RuntimeError_password, w)
          | Some p \<Rightarrow>
             if p = [] then (Inl RuntimeError_password, w)
             else
               let ci = \<lparr>ci_host = DB_HOST env, ci_port = DB_PORT env, ci_database = DB_NAME env,
                         ci_user = DB_USER env, ci_password = p\<rparr>
               in if psycopg2_connect env ci
                  then (Inr \<lparr>work = flags_table w\<rparr>, emit (Connect ci) w)
                  else (Inl OperationalError, emit (Connect ci) w)))"

subsection \<open>Responses\<close>

text \<open>
  The JSON bodies of the responses, by their shape: the fixed texts of the program are
  the constructors, what the program puts into them are the arguments. \<open>Error_internal\<close>
  is \<^verbatim>\<open>{"error": ..., "details": str(e)}\<close>, with the text of the handler that answers.
\<close>

datatype operation = Creating | Listing | Fetching | Updating

datatype body =
    Status_ok
  | Error_name_required
  | Error_already_exists json
  | Error_internal operation exn
  | Message_created json
  | Flags "flag list"
  | Flag flag
  | Error_not_found
  | Error_is_enabled_required
  | Message_updated string

type_synonym response = "body \<times> nat"

subsection \<open>The handlers\<close>

definition health_check :: "response" where
  "health_check = (Status_ok, 200)"

text \<open>
  The \<^verbatim>\<open>try\<close> block of \<^verbatim>\<open>create_flag\<close>; the connection is returned when \<^verbatim>\<open>conn\<close> was
  bound, for the \<^verbatim>\<open>finally\<close> block.
\<close>

definition create_flag_try ::
  "environment \<Rightarrow> json \<Rightarrow> json \<Rightarrow> world \<Rightarrow> (exn + unit) \<times> connection option \<times> world" where
  "create_flag_try env name is_enabled w =
     (case get_db_connection env w of
        (Inl e, w1) \<Rightarrow> (Inl e, None, w1)
      | (Inr conn, w1) \<Rightarrow>
         (case execute env (Insert_flag name is_enabled) conn w1 of
            (Inl e, conn2, w2) \<Rightarrow> (Inl e, Some conn2, w2)
          | (Inr cur, conn2, w2) \<Rightarrow> (Inr (), Some conn2, commit conn2 w2)))"

text \<open>
  \<^verbatim>\<open>POST /flags\<close>. An exception raised before the \<^verbatim>\<open>try\<close> block leaves the handler
  (\<open>Inl\<close>).
\<close>

definition create_flag :: "environment \<Rightarrow> json \<Rightarrow> world \<Rightarrow> (exn + response) \<times> world" where
  "create_flag env data w =
     (if \<not> truthy data then (Inr (Error_name_required, 400), w)
      else
        (case contains ''name'' data of
           Inl e \<Rightarrow> (Inl e, w)
         | Inr present \<Rightarrow>
            if \<not> present then (Inr (Error_name_required, 400), w)
            else
              (case getitem data ''name'' of
                 Inl e \<Rightarrow> (Inl e, w)
               | Inr name \<Rightarrow>
                  (case dict_get data ''is_enabled'' (JBool False) of
                     Inl e \<Rightarrow> (Inl e, w)
                   | Inr is_enabled \<Rightarrow>
                      (case create_flag_try env name is_enabled w of
                         (Inl e, c, w1) \<Rightarrow>
                           if is_IntegrityError e
                           then (Inr (Error_already_exists name, 409), finally_close c w1)
                           else (Inr (Error_internal Creating e, 500), finally_close c w1)
                       | (Inr u, c, w1) \<Rightarrow>
                           (Inr (Message_created name, 201), finally_close c w1))))))"

definition get_flags_try ::
  "environment \<Rightarrow> world \<Rightarrow> (exn + flag list) \<times> connection option \<times> world" where
  "get_flags_try env w =
     (case get_db_connection env w of
        (Inl e, w1) \<Rightarrow> (Inl e, None, w1)
      | (Inr conn, w1) \<Rightarrow>
         (case execute env Select_flags conn w1 of
            (Inl e, conn2, w2) \<Rightarrow> (Inl e, Some conn2, w2)
          | (Inr cur, conn2, w2) \<Rightarrow> (Inr (fetched cur), Some conn2, w2)))"

text \<open>\<^verbatim>\<open>GET /flags\<close>.\<close>

definition get_flags :: "environment \<Rightarrow> world \<Rightarrow> (exn + response) \<times> world" where
  "get_flags env w =
     (case get_flags_try env w of
        (Inl e, c, w1) \<Rightarrow> (Inr (Error_internal Listing e, 500), finally_close c w1)
      | (Inr flags, c, w1) \<Rightarrow> (Inr (Flags flags, 200), finally_close c w1))"




text \<open>
  The \<^verbatim>\<open>try\<close> block of \<^verbatim>\<open>update_flag\<close>: \<open>Inr (Some r)\<close> is its \<^verbatim>\<open>return\<close> of the 404,
  before the commit; \<open>Inr None\<close> is its normal end, after the commit.
\<close>

definition update_flag_try ::
  "environment \<Rightarrow> bool \<Rightarrow> string \<Rightarrow> world \<Rightarrow>
     (exn + response option) \<times> connection option \<times> world" where
  "update_flag_try env is_enabled name w =
     (case get_db_connection env w of
        (Inl e, w1) \<Rightarrow> (Inl e, None, w1)
      | (Inr conn, w1) \<Rightarrow>
         (case execute env (Update_flag is_enabled name) conn w1 of
            (Inl e, conn2, w2) \<Rightarrow> (Inl e, Some conn2, w2)
          | (Inr cur, conn2, w2) \<Rightarrow>
              if rowcount cur = 0 then (Inr (Some (Error_not_found, 404)), Some conn2, w2)
              else (Inr None, Some conn2, commit conn2 w2)))"

text \<open>\<^verbatim>\<open>PUT /flags/<name>\<close>.\<close>

definition update_flag ::
  "environment \<Rightarrow> string \<Rightarrow> json \<Rightarrow> world \<Rightarrow> (exn + response) \<times> world" where
  "update_flag env name data w =
     (if data = JNull then (Inr (Error_is_enabled_required, 400), w)
      else
        (case contains ''is_enabled'' data of
           Inl e \<Rightarrow> (Inl e, w)
         | Inr present \<Rightarrow>
            if \<not> present then (Inr (Error_is_enabled_required, 400), w)
            else
              (case getitem data ''is_enabled'' of
                 Inl e \<Rightarrow> (Inl e, w)
               | Inr v \<Rightarrow>
                  if \<not> isinstance_bool v then (Inr (Error_is_enabled_required, 400), w)
                  else
                    let is_enabled = (v = JBool True) in
                    (case update_flag_try env is_enabled name w of
                       (Inl e, c, w1) \<Rightarrow>
                         (Inr (Error_internal Updating e, 500), finally_close c w1)
                     | (Inr (Some r), c, w1) \<Rightarrow> (Inr r, finally_close c w1)
                     | (Inr None, c, w1) \<Rightarrow>
                         (Inr (Message_updated name, 200), finally_close c w1)))))"

text \<open>The status code of an answer; \<open>None\<close> when the handler raised instead.\<close>

definition status_of :: "(exn + response) \<times> world \<Rightarrow> nat option" where
  "status_of r = (case fst r of Inl e \<Rightarrow> None | Inr (b, code) \<Rightarrow> Some code)"

subsection \<open>The schema bootstrap\<close>

definition init_db_try :: "environment \<Rightarrow> world \<Rightarrow> (exn + unit) \<times> world" where
  "init_db_try env w =
     (case get_db_connection env w of
        (Inl e, w1) \<Rightarrow> (Inl e, w1)
      | (Inr conn, w1) \<Rightarrow>
         (case execute env Create_table_flags conn w1 of
            (Inl e, conn2, w2) \<Rightarrow> (Inl e, w2)
          | (Inr cur, conn2, w2) \<Rightarrow>
              (Inr (), emit (Print Log_initialised) (emit Close (commit conn2 w2)))))"

text \<open>
  \<^verbatim>\<open>init_db\<close>: both \<^verbatim>\<open>except\<close> clauses print and fall off the end of the function.
\<close>

definition init_db :: "environment \<Rightarrow> world \<Rightarrow> (exn + unit) \<times> world" where
  "init_db env w =
     (case init_db_try env (emit (Print Log_trying) w) of
        (Inl e, w1) \<Rightarrow>
          if is_OperationalError e then (Inr (), emit (Print (Log_connection_error e)) w1)
          else (Inr (), emit (Print (Log_unexpected_error e)) w1)
      | (Inr u, w1) \<Rightarrow> (Inr (), w1))"

definition init_db_command :: "environment \<Rightarrow> world \<Rightarrow> (exn + unit) \<times> world" where
  "init_db_command env w = init_db env w"

subsection \<open>A configuration and a store to run the handlers on\<close>

definition local_env :: environment where
  "local_env =
     \<lparr>environ = [''DB_PASSWORD'' \<mapsto> ''postgres''], DB_PORT = 5432, boto3 = None,
      psycopg2_connect = (\<lambda>ci. True), varchar_of = (\<lambda>v. None), boolean_of = (\<lambda>v. None)\<rparr>"

text \<open>
  A configuration whose password is empty and comes from the secret store, and one
  with nothing set.
\<close>

definition ssm_env :: environment where
  "ssm_env =
     \<lparr>environ = [''DB_PASSWORD'' \<mapsto> '''', ''DB_PASSWORD_SSM_PARAM'' \<mapsto> ''/flags/db'',
                 ''AWS_DEFAULT_REGION'' \<mapsto> ''us-east-1''],
      DB_PORT = 5432,
      boto3 = Some (\<lambda>region name.
                if region = ''us-east-1'' \<and> name = ''/flags/db'' then Inr ''s3cret''
                else Inl (ClientError ''ParameterNotFound'')),
      psycopg2_connect = (\<lambda>ci. True), varchar_of = (\<lambda>v. None), boolean_of = (\<lambda>v. None)\<rparr>"

definition bare_env :: environment where
  "bare_env =
     \<lparr>environ = Map.empty, DB_PORT = 5432, boto3 = None,
      psycopg2_connect = (\<lambda>ci. True), varchar_of = (\<lambda>v. None), boolean_of = (\<lambda>v. None)\<rparr>"

text \<open>The configuration above with a server that refuses connections.\<close>

definition down_env :: environment where
  "down_env = local_env\<lparr>psycopg2_connect := (\<lambda>ci. False)\<rparr>"

definition empty_store :: world where
  "empty_store = \<lparr>flags_table = Some [], trace = []\<rparr>"

text \<open>The store before the bootstrap.\<close>

definition no_table :: world where
  "no_table = \<lparr>flags_table = None, trace = []\<rparr>"

text \<open>The handlers reach the store: a password is resolved and the server accepts it.\<close>

definition connects :: "environment \<Rightarrow> bool" where
  "connects env =
     (case resolve_db_password env of
        Inl e \<Rightarrow> False
      | Inr None \<Rightarrow> False
      | Inr (Some p) \<Rightarrow>
          p \<noteq> [] \<and>
          psycopg2_connect env
            \<lparr>ci_host = DB_HOST env, ci_port = DB_PORT env, ci_database = DB_NAME env,
             ci_user = DB_USER env, ci_password = p\<rparr>)"

section \<open>Properties\<close>

subsection \<open>Reaching the store\<close>

lemma connects_get_db_connection:
  assumes "connects env"
  shows "\<exists>ci. get_db_connection env w = (Inr \<lparr>work = flags_table w\<rparr>, emit (Connect ci) w)"
  using assms
  by (auto simp: connects_def get_db_connection_def Let_def split: sum.splits option.splits)

lemma get_db_connection_table:
  "flags_table (snd (get_db_connection env w)) = flags_table w"
  by (auto simp: get_db_connection_def emit_def Let_def split: sum.splits option.splits)

lemma map_of_Some_key: "map_of kvs k = Some v \<Longrightarrow> k \<in> set (map fst kvs)"
  by (metis map_of_eq_None_iff option.distinct(1) set_map)

lemma varchar100_short: "length s \<le> 100 \<Longrightarrow> varchar100 s = Inr (Some s)"
  by (simp add: varchar100_def)

lemma insert_flag_fresh:
  assumes "length n \<le> 100" "n \<notin> set (map flag_name t)"
  shows "insert_flag env (JStr n) (JBool b) t = Inr (t @ [\<lparr>flag_name = n, flag_is_enabled = b\<rparr>])"
  using assms by (simp add: insert_flag_def varchar100_short)

lemma insert_flag_dup:
  assumes "length n \<le> 100" "n \<in> set (map flag_name t)"
  shows "insert_flag env (JStr n) (JBool b) t = Inl UniqueViolation"
  using assms by (simp add: insert_flag_def varchar100_short)

lemma create_flag_fresh:
  assumes "connects env" "flags_table w = Some t" "length n \<le> 100" "n \<notin> set (map flag_name t)"
    and "map_of kvs ''name'' = Some (JStr n)"
    and "map_of kvs ''is_enabled'' = None \<and> b = False \<or> map_of kvs ''is_enabled'' = Some (JBool b)"
  shows "fst (create_flag env (JObj kvs) w) = Inr (Message_created (JStr n), 201)"
    and "flags_table (snd (create_flag env (JObj kvs) w)) = Some (t @ [\<lparr>flag_name = n, flag_is_enabled = b\<rparr>])"
proof -
  obtain ci where c: "get_db_connection env w = (Inr \<lparr>work = flags_table w\<rparr>, emit (Connect ci) w)"
    using connects_get_db_connection[OF assms(1)] by blast
  have k: "''name'' \<in> set (map fst kvs)" "kvs \<noteq> []"
    using map_of_Some_key[OF assms(5)] by auto
  have i: "dict_get (JObj kvs) ''is_enabled'' (JBool False) = Inr (JBool b)"
    using assms(6) by auto
  show "fst (create_flag env (JObj kvs) w) = Inr (Message_created (JStr n), 201)"
    using k i assms(2-5) c
    by (simp add: create_flag_def create_flag_try_def execute_def insert_flag_fresh)
  show "flags_table (snd (create_flag env (JObj kvs) w)) = Some (t @ [\<lparr>flag_name = n, flag_is_enabled = b\<rparr>])"
    using k i assms(2-5) c
    by (simp add: create_flag_def create_flag_try_def execute_def insert_flag_fresh commit_def emit_def finally_close_def)
qed


lemma connects_local_env: "connects local_env"
  by (simp add: connects_def local_env_def resolve_db_password_def getenv_def)

lemma not_connects_get_db_connection:
  assumes "\<not> connects env"
  shows "\<exists>e w'. get_db_connection env w = (Inl e, w') \<and> flags_table w' = flags_table w"
  using assms
  by (auto simp: connects_def get_db_connection_def emit_def Let_def split: sum.splits option.splits)

subsection \<open>Create, then get\<close>



subsection \<open>Password resolution\<close>

text \<open>
  C6. \<^verbatim>\<open>resolve_db_password\<close> returns the password of \<^verbatim>\<open>DB_PASSWORD\<close> when it is
  set and not empty; otherwise, when \<^verbatim>\<open>DB_PASSWORD_SSM_PARAM\<close> names a parameter, what
  the secret store holds for it in the region of \<^verbatim>\<open>AWS_REGION\<close>, else of
  \<^verbatim>\<open>AWS_DEFAULT_REGION\<close>, else in \<^verbatim>\<open>sa-east-1\<close>; otherwise \<^verbatim>\<open>None\<close>, and then
  \<^verbatim>\<open>get_db_connection\<close> raises its \<^verbatim>\<open>RuntimeError\<close> and leaves the world as it was:
  no connection is attempted.
\<close>

theorem password_resolution:
  "(\<forall>p. getenv env ''DB_PASSWORD'' = Some p \<and> p \<noteq> [] \<longrightarrow>
       resolve_db_password env = Inr (Some p)) \<and>
   (\<forall>n. \<not> str_truthy (getenv env ''DB_PASSWORD'') \<and>
        getenv env ''DB_PASSWORD_SSM_PARAM'' = Some n \<and> n \<noteq> [] \<longrightarrow>
       resolve_db_password env = map_sum id Some (get_ssm_parameter env n (region_of env)) \<and>
       (\<forall>ssm v. boto3 env = Some ssm \<and> ssm (region_of env) n = Inr v \<longrightarrow>
          resolve_db_password env = Inr (Some v))) \<and>
   (\<forall>r. getenv env ''AWS_REGION'' = Some r \<and> r \<noteq> [] \<longrightarrow> region_of env = r) \<and>
   (\<forall>r. \<not> str_truthy (getenv env ''AWS_REGION'') \<and>
        getenv env ''AWS_DEFAULT_REGION'' = Some r \<and> r \<noteq> [] \<longrightarrow> region_of env = r) \<and>
   (\<not> str_truthy (getenv env ''AWS_REGION'') \<and>
    \<not> str_truthy (getenv env ''AWS_DEFAULT_REGION'') \<longrightarrow> region_of env = ''sa-east-1'') \<and>
   (\<not> str_truthy (getenv env ''DB_PASSWORD'') \<and>
    \<not> str_truthy (getenv env ''DB_PASSWORD_SSM_PARAM'') \<longrightarrow>
       resolve_db_password env = Inr None) \<and>
   (resolve_db_password env = Inr None \<longrightarrow>
       get_db_connection env w = (Inl RuntimeError_password, w))"
proof (intro conjI allI impI)
  fix p assume "getenv env ''DB_PASSWORD'' = Some p \<and> p \<noteq> []"
  then show "resolve_db_password env = Inr (Some p)"
    by (simp add: resolve_db_password_def)
next
  fix n assume a: "\<not> str_truthy (getenv env ''DB_PASSWORD'') \<and>
        getenv env ''DB_PASSWORD_SSM_PARAM'' = Some n \<and> n \<noteq> []"
  then show r: "resolve_db_password env = map_sum id Some (get_ssm_parameter env n (region_of env))"
    by (simp add: resolve_db_password_def)
  fix ssm v assume "boto3 env = Some ssm \<and> ssm (region_of env) n = Inr v"
  then show "resolve_db_password env = Inr (Some v)"
    using r by (simp add: get_ssm_parameter_def)
next
  fix r assume "getenv env ''AWS_REGION'' = Some r \<and> r \<noteq> []"
  then show "region_of env = r" by (simp add: region_of_def py_or_def or_else_def)
next
  fix r assume "\<not> str_truthy (getenv env ''AWS_REGION'') \<and>
        getenv env ''AWS_DEFAULT_REGION'' = Some r \<and> r \<noteq> []"
  then show "region_of env = r" by (simp add: region_of_def py_or_def or_else_def)
next
  assume "\<not> str_truthy (getenv env ''AWS_REGION'') \<and>
    \<not> str_truthy (getenv env ''AWS_DEFAULT_REGION'')"
  then show "region_of env = ''sa-east-1''"
    by (cases "getenv env ''AWS_DEFAULT_REGION''") (simp_all add: region_of_def py_or_def or_else_def)
next
  assume "\<not> str_truthy (getenv env ''DB_PASSWORD'') \<and>
    \<not> str_truthy (getenv env ''DB_PASSWORD_SSM_PARAM'')"
  then show "resolve_db_password env = Inr None"
    by (cases "getenv env ''DB_PASSWORD_SSM_PARAM''") (simp_all add: resolve_db_password_def)
next
  assume "resolve_db_password env = Inr None"
  then show "get_db_connection env w = (Inl RuntimeError_password, w)"
    by (simp add: get_db_connection_def)
qed

theorem password_resolution_witness:
  "resolve_db_password local_env = Inr (Some ''postgres'') \<and>
   region_of ssm_env = ''us-east-1'' \<and>
   resolve_db_password ssm_env = Inr (Some ''s3cret'') \<and>
   region_of bare_env = ''sa-east-1'' \<and>
   resolve_db_password bare_env = Inr None \<and>
   get_db_connection bare_env empty_store = (Inl RuntimeError_password, empty_store)"
  using password_resolution [of local_env empty_store] password_resolution [of ssm_env empty_store]
    password_resolution [of bare_env empty_store]
  by (simp add: local_env_def ssm_env_def bare_env_def getenv_def resolve_db_password_def
      get_ssm_parameter_def region_of_def py_or_def or_else_def get_db_connection_def)

text \<open>
  C10. A \<^verbatim>\<open>DB_PASSWORD\<close> that is the empty string counts as not set: the result is
  the one of the same environment without the variable, that is the lookup in the
  secret store when a parameter is named, and \<^verbatim>\<open>None\<close> when none is.
\<close>

theorem empty_password_is_absent:
  assumes "getenv env ''DB_PASSWORD'' = Some ''''"
  shows "resolve_db_password env =
           resolve_db_password (env\<lparr>environ := (environ env)(''DB_PASSWORD'' := None)\<rparr>) \<and>
         (\<forall>n. getenv env ''DB_PASSWORD_SSM_PARAM'' = Some n \<and> n \<noteq> [] \<longrightarrow>
            resolve_db_password env = map_sum id Some (get_ssm_parameter env n (region_of env))) \<and>
         (\<not> str_truthy (getenv env ''DB_PASSWORD_SSM_PARAM'') \<longrightarrow>
            resolve_db_password env = Inr None)"
  using assms
  by (auto simp: resolve_db_password_def getenv_def get_ssm_parameter_def region_of_def py_or_def
      split: option.splits)

theorem empty_password_is_absent_witness:
  "getenv ssm_env ''DB_PASSWORD'' = Some '''' \<and>
   resolve_db_password ssm_env = Inr (Some ''s3cret'')"
  using empty_password_is_absent [of ssm_env]
  by (simp add: ssm_env_def getenv_def resolve_db_password_def get_ssm_parameter_def
      region_of_def py_or_def or_else_def)

subsection \<open>The bootstrap\<close>

lemma init_db_table_eq:
  "flags_table (snd (init_db env w)) =
     (if connects env then (case flags_table w of None \<Rightarrow> Some [] | Some t \<Rightarrow> Some t)
      else flags_table w)"
proof (cases "connects env")
  case True
  obtain ci where c: "get_db_connection env (emit (Print Log_trying) w) =
      (Inr \<lparr>work = flags_table (emit (Print Log_trying) w)\<rparr>,
       emit (Connect ci) (emit (Print Log_trying) w))"
    using connects_get_db_connection[OF True] by blast
  show ?thesis using True c
    by (cases "flags_table w")
       (simp_all add: init_db_def init_db_try_def execute_def commit_def emit_def)
next
  case False
  obtain e w' where c: "get_db_connection env (emit (Print Log_trying) w) = (Inl e, w')"
     "flags_table w' = flags_table (emit (Print Log_trying) w)"
    using not_connects_get_db_connection[OF False] by blast
  show ?thesis using False c
    by (simp add: init_db_def init_db_try_def emit_def)
qed

lemma init_db_returns: "fst (init_db env w) = Inr ()"
  by (auto simp: init_db_def split: sum.splits prod.splits)

text \<open>
  C7. \<^verbatim>\<open>init_db\<close> always returns normally, whatever the \<^verbatim>\<open>try\<close> block raised; when
  the table exists it leaves the table as it is, and a second run leaves the table as
  the first run left it; an exception of the \<^verbatim>\<open>try\<close> block is printed, as a connection
  error when it is an \<^verbatim>\<open>OperationalError\<close> and as an unexpected error otherwise.
\<close>

theorem init_db_idempotent_and_silent:
  "fst (init_db env w) = Inr () \<and>
   (\<forall>t. flags_table w = Some t \<longrightarrow> flags_table (snd (init_db env w)) = Some t) \<and>
   flags_table (snd (init_db env (snd (init_db env w)))) = flags_table (snd (init_db env w)) \<and>
   (\<forall>e w1. init_db_try env (emit (Print Log_trying) w) = (Inl e, w1) \<longrightarrow>
      snd (init_db env w) =
        emit (Print (if is_OperationalError e then Log_connection_error e
                     else Log_unexpected_error e)) w1)"
proof (intro conjI allI impI)
  show "fst (init_db env w) = Inr ()" by (rule init_db_returns)
next
  fix t assume "flags_table w = Some t"
  then show "flags_table (snd (init_db env w)) = Some t"
    by (simp add: init_db_table_eq)
next
  show "flags_table (snd (init_db env (snd (init_db env w)))) = flags_table (snd (init_db env w))"
    by (simp add: init_db_table_eq split: option.splits)
next
  fix e w1 assume "init_db_try env (emit (Print Log_trying) w) = (Inl e, w1)"
  then show "snd (init_db env w) =
        emit (Print (if is_OperationalError e then Log_connection_error e
                     else Log_unexpected_error e)) w1"
    by (simp add: init_db_def)
qed

theorem init_db_idempotent_and_silent_witness:
  "flags_table (snd (init_db local_env no_table)) = Some [] \<and>
   flags_table (snd (init_db local_env (snd (init_db local_env no_table)))) = Some [] \<and>
   init_db down_env no_table =
     (Inr (), \<lparr>flags_table = None,
               trace = [Print Log_trying,
                        Connect \<lparr>ci_host = None, ci_port = 5432, ci_database = None,
                                 ci_user = None, ci_password = ''postgres''\<rparr>,
                        Print (Log_connection_error OperationalError)]\<rparr>) \<and>
   init_db bare_env no_table =
     (Inr (), \<lparr>flags_table = None,
               trace = [Print Log_trying, Print (Log_unexpected_error RuntimeError_password)]\<rparr>)"
  using init_db_idempotent_and_silent [of local_env no_table]
    init_db_idempotent_and_silent [of local_env "snd (init_db local_env no_table)"]
    init_db_idempotent_and_silent [of down_env no_table]
    init_db_idempotent_and_silent [of bare_env no_table]
  by (simp add: init_db_def init_db_try_def get_db_connection_def resolve_db_password_def
      getenv_def DB_HOST_def DB_NAME_def DB_USER_def execute_def commit_def emit_def
      local_env_def down_env_def bare_env_def no_table_def)

subsection \<open>Listing\<close>

lemma get_flags_connected:
  assumes "connects env" "flags_table w = Some t"
  shows "fst (get_flags env w) = Inr (Flags (sort_key flag_name t), 200)"
proof -
  obtain ci where c: "get_db_connection env w = (Inr \<lparr>work = flags_table w\<rparr>, emit (Connect ci) w)"
    using connects_get_db_connection[OF assms(1)] by blast
  show ?thesis using c assms(2)
    by (simp add: get_flags_def get_flags_try_def execute_def)
qed

text \<open>
  C5. On a store that is reached and whose table exists, \<^verbatim>\<open>list\<close> answers 200 with
  the name and \<^verbatim>\<open>is_enabled\<close> of every flag, each once, sorted by name in the
  lexicographic order of strings (the order of \<^theory_text>\<open>List_Lexorder\<close> over the
  character codes); with no flags the answer is the empty list, and after creating
  \<^verbatim>\<open>"b"\<close> and then \<^verbatim>\<open>"a"\<close> on an empty table it is \<^verbatim>\<open>a\<close>, \<^verbatim>\<open>b\<close>.
\<close>

theorem get_flags_sorted:
  assumes "connects env" "flags_table w = Some t"
  shows "fst (get_flags env w) = Inr (Flags (sort_key flag_name t), 200) \<and>
         sorted (map flag_name (sort_key flag_name t)) \<and>
         mset (sort_key flag_name t) = mset t \<and>
         (t = [] \<longrightarrow> fst (get_flags env w) = Inr (Flags [], 200)) \<and>
         (t = [] \<longrightarrow>
            fst (get_flags env
                  (snd (create_flag env (JObj [(''name'', JStr ''a'')])
                    (snd (create_flag env (JObj [(''name'', JStr ''b'')]) w))))) =
              Inr (Flags [\<lparr>flag_name = ''a'', flag_is_enabled = False\<rparr>,
                          \<lparr>flag_name = ''b'', flag_is_enabled = False\<rparr>], 200))"
proof (intro conjI impI)
  show g: "fst (get_flags env w) = Inr (Flags (sort_key flag_name t), 200)"
    by (rule get_flags_connected[OF assms])
  show "sorted (map flag_name (sort_key flag_name t))" by simp
  show "mset (sort_key flag_name t) = mset t" by simp
  { assume "t = []" then show "fst (get_flags env w) = Inr (Flags [], 200)" using g by simp }
  assume e: "t = []"
  let ?w1 = "snd (create_flag env (JObj [(''name'', JStr ''b'')]) w)"
  let ?w2 = "snd (create_flag env (JObj [(''name'', JStr ''a'')]) ?w1)"
  have t1: "flags_table ?w1 = Some ([] @ [\<lparr>flag_name = ''b'', flag_is_enabled = False\<rparr>])"
    using assms e by (intro create_flag_fresh(2)) simp_all
  have t2: "flags_table ?w2 = Some ([\<lparr>flag_name = ''b'', flag_is_enabled = False\<rparr>] @
               [\<lparr>flag_name = ''a'', flag_is_enabled = False\<rparr>])"
    using assms(1) t1 by (intro create_flag_fresh(2)) simp_all
  show "fst (get_flags env ?w2) =
              Inr (Flags [\<lparr>flag_name = ''a'', flag_is_enabled = False\<rparr>,
                          \<lparr>flag_name = ''b'', flag_is_enabled = False\<rparr>], 200)"
    using get_flags_connected[OF assms(1) t2] by simp
qed

theorem get_flags_sorted_witness:
  "connects local_env \<and> flags_table empty_store = Some [] \<and>
   fst (get_flags local_env empty_store) = Inr (Flags [], 200) \<and>
   fst (get_flags local_env
         (snd (create_flag local_env (JObj [(''name'', JStr ''a'')])
           (snd (create_flag local_env (JObj [(''name'', JStr ''b'')]) empty_store))))) =
     Inr (Flags [\<lparr>flag_name = ''a'', flag_is_enabled = False\<rparr>,
                 \<lparr>flag_name = ''b'', flag_is_enabled = False\<rparr>], 200)"
  using get_flags_sorted [of local_env empty_store "[]"]
  by (simp add: connects_local_env empty_store_def)

subsection \<open>Updating\<close>




subsection \<open>The body of an update\<close>



lemma update_flag_rejected:
  assumes "data = JNull \<or> data = JObj kvs \<and>
     (''is_enabled'' \<notin> set (map fst kvs) \<or>
      (\<exists>v. map_of kvs ''is_enabled'' = Some v \<and> \<not> isinstance_bool v))"
  shows "update_flag env name data w = (Inr (Error_is_enabled_required, 400), w)"
  using assms map_of_Some_key[of kvs "''is_enabled''"]
  by (auto simp: update_flag_def)




subsection \<open>The body of a create\<close>

lemma create_flag_with_name:
  assumes "map_of kvs ''name'' = Some n"
  shows "create_flag env (JObj kvs) w =
     (case create_flag_try env n (case map_of kvs ''is_enabled'' of None \<Rightarrow> JBool False | Some v \<Rightarrow> v) w of
        (Inl e, c, w1) \<Rightarrow>
          if is_IntegrityError e
          then (Inr (Error_already_exists n, 409), finally_close c w1)
          else (Inr (Error_internal Creating e, 500), finally_close c w1)
      | (Inr u, c, w1) \<Rightarrow> (Inr (Message_created n, 201), finally_close c w1))"
proof -
  have k: "''name'' \<in> set (map fst kvs)" "kvs \<noteq> []"
    using map_of_Some_key[OF assms] by auto
  show ?thesis using k assms by (simp add: create_flag_def)
qed

lemma create_flag_without_name:
  assumes "''name'' \<notin> set (map fst kvs)"
  shows "create_flag env (JObj kvs) w = (Inr (Error_name_required, 400), w)"
  using assms by (simp add: create_flag_def)

lemma create_flag_status_with_name:
  assumes "map_of kvs ''name'' = Some n"
  shows "status_of (create_flag env (JObj kvs) w) \<in> {Some 409, Some 500, Some 201}"
  unfolding create_flag_with_name[OF assms]
  by (auto simp: status_of_def split: prod.splits sum.splits)

lemma create_flag_try_trace:
  assumes "connects env"
  shows "\<exists>ci rest. trace (snd (snd (create_flag_try env n v w))) =
           trace w @ [Connect ci, Execute (Insert_flag n v)] @ rest"
proof -
  obtain ci where c: "get_db_connection env w = (Inr \<lparr>work = flags_table w\<rparr>, emit (Connect ci) w)"
    using connects_get_db_connection[OF assms] by blast
  show ?thesis using c
    by (auto simp: create_flag_try_def execute_def commit_def emit_def split: sum.splits)
qed

lemma create_flag_trace:
  assumes "connects env" "map_of kvs ''name'' = Some n"
  shows "\<exists>ci rest. trace (snd (create_flag env (JObj kvs) w)) =
           trace w @ [Connect ci, Execute (Insert_flag n
             (case map_of kvs ''is_enabled'' of None \<Rightarrow> JBool False | Some v \<Rightarrow> v))] @ rest"
proof -
  let ?v = "case map_of kvs ''is_enabled'' of None \<Rightarrow> JBool False | Some v \<Rightarrow> v"
  obtain r c w1 where t: "create_flag_try env n ?v w = (r, c, w1)"
    by (cases "create_flag_try env n ?v w")
  obtain ci rest where tr: "trace w1 = trace w @ [Connect ci, Execute (Insert_flag n ?v)] @ rest"
    using create_flag_try_trace[OF assms(1), of n ?v w] t by auto
  have "trace (snd (create_flag env (JObj kvs) w)) = trace (finally_close c w1)"
    unfolding create_flag_with_name[OF assms(2)] using t
    by (auto split: sum.splits)
  also have "\<dots> = trace w @ [Connect ci, Execute (Insert_flag n ?v)] @
      (rest @ (case c of None \<Rightarrow> [] | Some x \<Rightarrow> [Close]))"
    using tr by (simp add: finally_close_def emit_def split: option.splits)
  finally show ?thesis by blast
qed

text \<open>
  C8. For a JSON object, \<^verbatim>\<open>create\<close> answers 400 exactly when the object has no
  \<^verbatim>\<open>name\<close> key, whatever the value under the key is; with the key, and the store
  reached, the \<^verbatim>\<open>INSERT\<close> is executed with that value. The body
  \<^verbatim>\<open>{"name": ""}\<close> is created (201) when no flag has the empty name.
\<close>

theorem create_flag_checks_presence_only:
  "(status_of (create_flag env (JObj kvs) w) = Some 400) = (''name'' \<notin> set (map fst kvs)) \<and>
   (\<forall>n. connects env \<and> map_of kvs ''name'' = Some n \<longrightarrow>
      (\<exists>ci rest. trace (snd (create_flag env (JObj kvs) w)) =
         trace w @ [Connect ci, Execute (Insert_flag n
           (case map_of kvs ''is_enabled'' of None \<Rightarrow> JBool False | Some v \<Rightarrow> v))] @ rest)) \<and>
   (\<forall>t. connects env \<and> flags_table w = Some t \<and> '''' \<notin> set (map flag_name t) \<longrightarrow>
      fst (create_flag env (JObj [(''name'', JStr '''')]) w) =
        Inr (Message_created (JStr ''''), 201) \<and>
      flags_table (snd (create_flag env (JObj [(''name'', JStr '''')]) w)) =
        Some (t @ [\<lparr>flag_name = '''', flag_is_enabled = False\<rparr>]))"
proof (intro conjI allI impI)
  show "(status_of (create_flag env (JObj kvs) w) = Some 400) = (''name'' \<notin> set (map fst kvs))"
  proof (cases "''name'' \<in> set (map fst kvs)")
    case True
    then obtain n where "map_of kvs ''name'' = Some n"
      by (metis map_of_eq_None_iff not_Some_eq set_map)
    from create_flag_status_with_name[OF this, of env w] show ?thesis using True by auto
  next
    case False
    then show ?thesis by (simp add: create_flag_without_name status_of_def)
  qed
next
  fix n assume "connects env \<and> map_of kvs ''name'' = Some n"
  then show "\<exists>ci rest. trace (snd (create_flag env (JObj kvs) w)) =
         trace w @ [Connect ci, Execute (Insert_flag n
           (case map_of kvs ''is_enabled'' of None \<Rightarrow> JBool False | Some v \<Rightarrow> v))] @ rest"
    using create_flag_trace by blast
next
  fix t assume a: "connects env \<and> flags_table w = Some t \<and> '''' \<notin> set (map flag_name t)"
  then show "fst (create_flag env (JObj [(''name'', JStr '''')]) w) =
        Inr (Message_created (JStr ''''), 201)"
    by (intro create_flag_fresh(1)[where b = False and t = t]) simp_all
  from a show "flags_table (snd (create_flag env (JObj [(''name'', JStr '''')]) w)) =
        Some (t @ [\<lparr>flag_name = '''', flag_is_enabled = False\<rparr>])"
    by (intro create_flag_fresh(2)) simp_all
qed

theorem create_flag_checks_presence_only_witness:
  "connects local_env \<and>
   create_flag local_env (JObj [(''name'', JStr '''')]) empty_store =
     (Inr (Message_created (JStr ''''), 201),
      \<lparr>flags_table = Some [\<lparr>flag_name = '''', flag_is_enabled = False\<rparr>],
        trace = [Connect \<lparr>ci_host = None, ci_port = 5432, ci_database = None,
                          ci_user = None, ci_password = ''postgres''\<rparr>,
                 Execute (Insert_flag (JStr '''') (JBool False)), Commit, Close]\<rparr>)"
  using create_flag_checks_presence_only [of local_env "[(''name'', JStr '''')]" empty_store]
    connects_local_env
  by (simp add: empty_store_def create_flag_def create_flag_try_def insert_flag_def
      varchar100_def get_db_connection_def resolve_db_password_def getenv_def DB_HOST_def
      DB_NAME_def DB_USER_def execute_def commit_def emit_def finally_close_def local_env_def)

text \<open>
  C9. For a JSON object with a \<^verbatim>\<open>name\<close>, whatever value it has under
  \<^verbatim>\<open>is_enabled\<close>, \<^verbatim>\<open>create\<close> never answers 400 and, with the store reached, executes
  the \<^verbatim>\<open>INSERT\<close> with exactly that value; \<^verbatim>\<open>update\<close> answers 400 for the same body
  when the value is not a \<^verbatim>\<open>bool\<close>, without touching the store.
\<close>

theorem create_flag_forwards_is_enabled:
  assumes "map_of kvs ''name'' = Some n" "map_of kvs ''is_enabled'' = Some v"
  shows "status_of (create_flag env (JObj kvs) w) \<noteq> Some 400 \<and>
         (connects env \<longrightarrow>
            (\<exists>ci rest. trace (snd (create_flag env (JObj kvs) w)) =
               trace w @ [Connect ci, Execute (Insert_flag n v)] @ rest)) \<and>
         (\<not> isinstance_bool v \<longrightarrow>
            update_flag env name (JObj kvs) w = (Inr (Error_is_enabled_required, 400), w))"
proof (intro conjI impI)
  show "status_of (create_flag env (JObj kvs) w) \<noteq> Some 400"
    using create_flag_status_with_name[OF assms(1), of env w] by auto
next
  assume "connects env"
  from create_flag_trace[OF this assms(1), of w]
  show "\<exists>ci rest. trace (snd (create_flag env (JObj kvs) w)) =
               trace w @ [Connect ci, Execute (Insert_flag n v)] @ rest"
    using assms(2) by simp
next
  assume "\<not> isinstance_bool v"
  then show "update_flag env name (JObj kvs) w = (Inr (Error_is_enabled_required, 400), w)"
    using assms(2) by (intro update_flag_rejected) auto
qed

theorem create_flag_forwards_is_enabled_witness:
  "create_flag local_env (JObj [(''name'', JStr ''dark_mode''), (''is_enabled'', JStr ''true'')])
     empty_store =
     (Inr (Error_internal Creating CoercionError, 500),
      \<lparr>flags_table = Some [],
        trace = [Connect \<lparr>ci_host = None, ci_port = 5432, ci_database = None,
                          ci_user = None, ci_password = ''postgres''\<rparr>,
                 Execute (Insert_flag (JStr ''dark_mode'') (JStr ''true'')), Close]\<rparr>) \<and>
   update_flag local_env ''dark_mode''
     (JObj [(''name'', JStr ''dark_mode''), (''is_enabled'', JStr ''true'')]) empty_store =
     (Inr (Error_is_enabled_required, 400), empty_store)"
  using create_flag_forwards_is_enabled [of
      "[(''name'', JStr ''dark_mode''), (''is_enabled'', JStr ''true'')]" "JStr ''dark_mode''"
      "JStr ''true''" local_env empty_store "''dark_mode''"]
    connects_local_env
  by (simp add: empty_store_def create_flag_def create_flag_try_def insert_flag_def
      varchar100_def get_db_connection_def resolve_db_password_def getenv_def DB_HOST_def
      DB_NAME_def DB_USER_def execute_def commit_def emit_def finally_close_def local_env_def)

subsection \<open>Conflicts\<close>

text \<open>
  What holds of the 409: for a string name that fits the column and a boolean
  \<^verbatim>\<open>is_enabled\<close>, it is answered exactly when the name is in the table; an exception
  of the \<^verbatim>\<open>try\<close> block that is not an \<^verbatim>\<open>IntegrityError\<close> is answered by the 500 that
  carries it; and a request that was answered 201 is answered 409 when it is sent
  again.
\<close>

lemma create_flag_conflict_iff:
  assumes "connects env" "flags_table w = Some t" "length n \<le> 100"
    and "map_of kvs ''name'' = Some (JStr n)"
    and "map_of kvs ''is_enabled'' = None \<or> map_of kvs ''is_enabled'' = Some (JBool b)"
  shows "(status_of (create_flag env (JObj kvs) w) = Some 409) = (n \<in> set (map flag_name t))"
proof -
  obtain ci where c: "get_db_connection env w = (Inr \<lparr>work = flags_table w\<rparr>, emit (Connect ci) w)"
    using connects_get_db_connection[OF assms(1)] by blast
  have "\<exists>b'. (case map_of kvs ''is_enabled'' of None \<Rightarrow> JBool False | Some v \<Rightarrow> v) = JBool b'"
    using assms(5) by (cases "map_of kvs ''is_enabled''") auto
  then obtain b' where
    v: "(case map_of kvs ''is_enabled'' of None \<Rightarrow> JBool False | Some v \<Rightarrow> v) = JBool b'"
    by blast
  show ?thesis
  proof (cases "n \<in> set (map flag_name t)")
    case True
    then show ?thesis
      unfolding create_flag_with_name[OF assms(4)] v
      using c assms(2)
      by (simp add: create_flag_try_def execute_def insert_flag_dup[OF assms(3)] status_of_def)
  next
    case False
    then show ?thesis
      unfolding create_flag_with_name[OF assms(4)] v
      using c assms(2)
      by (simp add: create_flag_try_def execute_def insert_flag_fresh[OF assms(3)] status_of_def)
  qed
qed

lemma create_flag_other_failure:
  assumes "map_of kvs ''name'' = Some n"
    and "create_flag_try env n (case map_of kvs ''is_enabled'' of None \<Rightarrow> JBool False | Some v \<Rightarrow> v) w
           = (Inl e, c, w1)"
    and "\<not> is_IntegrityError e"
  shows "fst (create_flag env (JObj kvs) w) = Inr (Error_internal Creating e, 500)"
  unfolding create_flag_with_name[OF assms(1)] using assms(2,3) by simp

lemma get_db_connection_connects:
  "get_db_connection env w = (Inr conn, w1) \<Longrightarrow> connects env"
  by (auto simp: get_db_connection_def connects_def Let_def split: sum.splits option.splits if_splits)

lemma insert_flag_again:
  "insert_flag env n v t = Inr t' \<Longrightarrow> insert_flag env n v t' = Inl UniqueViolation"
  by (auto simp: insert_flag_def split: sum.splits option.splits if_splits)

lemma create_flag_try_created:
  assumes "create_flag_try env n v w = (Inr u, c, w1)"
  shows "connects env \<and>
         (\<exists>t t'. flags_table w = Some t \<and> insert_flag env n v t = Inr t' \<and>
                  flags_table (finally_close c w1) = Some t')"
proof -
  obtain conn w0 where c: "get_db_connection env w = (Inr conn, w0)"
    using assms by (auto simp: create_flag_try_def split: sum.splits prod.splits)
  then have k: "connects env" by (rule get_db_connection_connects)
  obtain ci where c': "get_db_connection env w = (Inr \<lparr>work = flags_table w\<rparr>, emit (Connect ci) w)"
    using connects_get_db_connection[OF k] by blast
  show ?thesis
  proof (cases "flags_table w")
    case None
    then show ?thesis using assms c'
      by (simp add: create_flag_try_def execute_def)
  next
    case (Some t)
    then show ?thesis using assms c' k
      by (auto simp: create_flag_try_def execute_def commit_def emit_def finally_close_def
          split: sum.splits option.splits)
  qed
qed

lemma create_flag_try_duplicate:
  assumes "connects env" "flags_table w = Some t" "insert_flag env n v t = Inl e"
  shows "\<exists>c w1. create_flag_try env n v w = (Inl e, c, w1)"
proof -
  obtain ci where c: "get_db_connection env w = (Inr \<lparr>work = flags_table w\<rparr>, emit (Connect ci) w)"
    using connects_get_db_connection[OF assms(1)] by blast
  show ?thesis using c assms(2,3)
    by (simp add: create_flag_try_def execute_def)
qed

lemma create_flag_twice_obj:
  assumes "status_of (create_flag env (JObj kvs) w) = Some 201"
  shows "status_of (create_flag env (JObj kvs) (snd (create_flag env (JObj kvs) w))) = Some 409"
proof -
  have "''name'' \<in> set (map fst kvs)"
    using assms by (cases "''name'' \<in> set (map fst kvs)")
      (simp_all add: create_flag_without_name status_of_def)
  then obtain n where n: "map_of kvs ''name'' = Some n"
    by (metis map_of_eq_None_iff not_Some_eq set_map)
  let ?v = "case map_of kvs ''is_enabled'' of None \<Rightarrow> JBool False | Some v \<Rightarrow> v"
  obtain r c w1 where t: "create_flag_try env n ?v w = (r, c, w1)"
    by (cases "create_flag_try env n ?v w")
  have r: "r = Inr ()"
    using assms t unfolding create_flag_with_name[OF n]
    by (cases r) (auto simp: status_of_def split: if_splits)
  have s: "snd (create_flag env (JObj kvs) w) = finally_close c w1"
    unfolding create_flag_with_name[OF n] using t r by simp
  from create_flag_try_created[OF t[unfolded r]]
  obtain t0 t' where k: "connects env" and i: "insert_flag env n ?v t0 = Inr t'"
    and f: "flags_table (finally_close c w1) = Some t'" by blast
  from create_flag_try_duplicate[OF k f insert_flag_again[OF i]]
  obtain c2 w2 where "create_flag_try env n ?v (finally_close c w1) = (Inl UniqueViolation, c2, w2)"
    by blast
  then have "status_of (create_flag env (JObj kvs) (finally_close c w1)) = Some 409"
    by (simp add: create_flag_with_name[OF n] status_of_def)
  then show ?thesis by (simp only: s)
qed

lemma create_flag_twice:
  assumes "status_of (create_flag env data w) = Some 201"
  shows "status_of (create_flag env data (snd (create_flag env data w))) = Some 409"
proof (cases data)
  case (JObj kvs)
  then show ?thesis using assms create_flag_twice_obj by simp
qed (use assms in \<open>auto simp: create_flag_def status_of_def split: if_splits\<close>)

text \<open>
  C2 at the body \<^verbatim>\<open>{"name": "dark_mode", "is_enabled": null}\<close> on an empty table:
  \<^verbatim>\<open>data.get\<close> returns the \<^verbatim>\<open>None\<close> of the body, the \<^verbatim>\<open>INSERT\<close> violates
  \<^verbatim>\<open>NOT NULL\<close>, which is an \<^verbatim>\<open>IntegrityError\<close>, and the handler answers 409 with the
  text that the flag exists already, although no flag has that name.
\<close>

theorem create_flag_null_is_enabled:
  "flags_table empty_store = Some [] \<and>
   fst (create_flag local_env (JObj [(''name'', JStr ''dark_mode''), (''is_enabled'', JNull)])
         empty_store) =
     Inr (Error_already_exists (JStr ''dark_mode''), 409)"
  by (simp add: empty_store_def create_flag_def create_flag_try_def insert_flag_def
      varchar100_def get_db_connection_def resolve_db_password_def getenv_def DB_HOST_def
      DB_NAME_def DB_USER_def execute_def commit_def emit_def finally_close_def local_env_def)

end
